theory Spec2Isabelle
  imports Complex_Main "HOL-Library.Log_Nat"
begin

text \<open>
  The browser client of devtask, \<open>static/js/app.js\<close>: a session store for a bearer
  token, a wrapper of \<open>fetch\<close>, and the handlers of the login, signup and dashboard
  pages.  The functions of the file are embedded as functions on an explicit state; what
  the file leaves to its environment (the server, the answers of the user, the engine) is
  a parameter of the functions.
\<close>

section \<open>Values of the JavaScript runtime\<close>

subsection \<open>Numbers\<close>

text \<open>
  A JavaScript number is an IEEE 754 double.  A finite double is modelled by the rational
  it denotes (\<open>-0\<close> is identified with \<open>0\<close>: the program never tells them apart, since
  both are falsy, both print as \<open>0\<close> and \<open>toFixed\<close> gives \<open>0.0\<close> for both); the
  three other values are constructors of their own.
\<close>

datatype num = Fin rat | PInf | NInf | NaN

definition pow2 :: "int \<Rightarrow> rat" where
  "pow2 e = (if 0 \<le> e then 2 ^ nat e else 1 / 2 ^ nat (- e))"

text \<open>\<open>ilog2 a\<close> is the binary exponent of a positive rational: \<open>2 ^ ilog2 a \<le> a < 2 ^ (ilog2 a + 1)\<close>.\<close>

definition ilog2 :: "rat \<Rightarrow> int" where
  "ilog2 a =
     (let e0 = int (floorlog 2 (nat (fst (quotient_of a)))) - int (floorlog 2 (nat (snd (quotient_of a))))
      in if pow2 e0 \<le> a then e0 else e0 - 1)"

definition round_half_even :: "rat \<Rightarrow> int" where
  "round_half_even m =
     (let f = \<lfloor>m\<rfloor>; r = m - of_int f
      in if r < 1 / 2 then f else if 1 / 2 < r then f + 1 else if even f then f else f + 1)"

text \<open>
  Rounding of an exact result to the nearest double, ties to even: 53 bits of mantissa,
  exponents from \<open>-1022\<close> (below which the spacing of the subnormals stays fixed) to
  \<open>1023\<close> (above which the result is an infinity).
\<close>

definition fl64 :: "rat \<Rightarrow> num" where
  "fl64 q =
     (if q = 0 then Fin 0
      else
        let a = \<bar>q\<bar>;
            e = max (ilog2 a) (- 1022);
            ulp = pow2 (e - 52);
            v = of_int (round_half_even (a / ulp)) * ulp
        in if pow2 1024 \<le> v then (if 0 < q then PInf else NInf)
           else Fin (if 0 < q then v else - v))"

text \<open>The operator \<open>+\<close> on two numbers.\<close>

fun fadd :: "num \<Rightarrow> num \<Rightarrow> num" where
  "fadd NaN _ = NaN"
| "fadd _ NaN = NaN"
| "fadd PInf NInf = NaN"
| "fadd NInf PInf = NaN"
| "fadd PInf _ = PInf"
| "fadd _ PInf = PInf"
| "fadd NInf _ = NInf"
| "fadd _ NInf = NInf"
| "fadd (Fin a) (Fin b) = fl64 (a + b)"

subsection \<open>Strings of digits\<close>

definition digit :: "nat \<Rightarrow> char" where
  "digit d = ''0123456789'' ! d"

text \<open>The decimal numeral of a natural number, as a template literal prints an array length or a counter.\<close>

fun show_nat :: "nat \<Rightarrow> string" where
  "show_nat n = (if n < 10 then [digit n] else show_nat (n div 10) @ [digit (n mod 10)])"

declare show_nat.simps [simp del]

subsection \<open>Parsed JSON\<close>

text \<open>
  What \<open>res.json()\<close> resolves to.  An object is the list of its own properties;
  \<open>map_of\<close> reads one.  The value \<open>undefined\<close> is not JSON: an expression that may
  be \<open>undefined\<close> has type \<open>json option\<close>, with \<open>None\<close> for \<open>undefined\<close>.
\<close>

datatype json =
    JNull
  | JBool bool
  | JNum num
  | JStr string
  | JArr "json list"
  | JObj "(string \<times> json) list"

text \<open>What the engine reports in a \<open>TypeError\<close> of its own.\<close>

datatype fault =
    ReadOf "json option" string   \<comment> \<open>a property read on \<open>null\<close> or \<open>undefined\<close>\<close>
  | WriteOf string string         \<comment> \<open>a property written on the missing element of that id\<close>
  | NotFunction string            \<comment> \<open>a call of a member that is not a function\<close>
  | NotPrimitive                  \<comment> \<open>an object that has no primitive value\<close>

text \<open>
  A thrown value.  Every value this program throws or catches is an error object, of which
  only \<open>message\<close> is ever read: \<open>Error m\<close> is an error object whose message is \<open>m\<close>
  (made by \<open>new Error(m)\<close>, or the rejection of \<open>fetch\<close> or of \<open>res.json()\<close>),
  \<open>TypeError f\<close> is raised by the engine while it runs this program.
\<close>

datatype exn = Error string | TypeError fault

text \<open>
  The parts of the engine that the language standard leaves to the implementation, or that
  are an algorithm of their own: the shortest decimal that prints a finite number, the
  wording of the engine's own errors, and \<open>parseFloat\<close>.
\<close>

record engine =
  number_to_string :: "rat \<Rightarrow> string"
  type_error_message :: "fault \<Rightarrow> string"
  parse_float :: "string \<Rightarrow> num"

fun message :: "engine \<Rightarrow> exn \<Rightarrow> string" where
  "message G (Error m) = m"
| "message G (TypeError f) = type_error_message G f"

definition bind :: "exn + 'a \<Rightarrow> ('a \<Rightarrow> exn + 'b) \<Rightarrow> exn + 'b" where
  "bind r f = (case r of Inl e \<Rightarrow> Inl e | Inr v \<Rightarrow> f v)"

fun truthy :: "json option \<Rightarrow> bool" where
  "truthy None = False"
| "truthy (Some JNull) = False"
| "truthy (Some (JBool b)) = b"
| "truthy (Some (JNum n)) = (n \<noteq> Fin 0 \<and> n \<noteq> NaN)"
| "truthy (Some (JStr s)) = (s \<noteq> [])"
| "truthy (Some (JArr xs)) = True"
| "truthy (Some (JObj kvs)) = True"

text \<open>\<open>a || b\<close>, where \<open>b\<close> is never \<open>undefined\<close>.\<close>

fun or_else :: "json option \<Rightarrow> json \<Rightarrow> json" where
  "or_else None b = b"
| "or_else (Some a) b = (if truthy (Some a) then a else b)"

text \<open>
  \<open>v.k\<close> for a property name \<open>k\<close> that no prototype defines (\<open>detail\<close>,
  \<open>access_token\<close>, \<open>items\<close>, \<open>id\<close>, \<open>title\<close>, \<open>status\<close>, \<open>time_logged\<close>): the own
  property of an object, \<open>undefined\<close> on any other value, a \<open>TypeError\<close> on \<open>null\<close>
  and \<open>undefined\<close>.
\<close>

fun member :: "json \<Rightarrow> string \<Rightarrow> json option" where
  "member (JObj kvs) k = map_of kvs k"
| "member _ k = None"

fun get :: "json option \<Rightarrow> string \<Rightarrow> exn + json option" where
  "get None k = Inl (TypeError (ReadOf None k))"
| "get (Some JNull) k = Inl (TypeError (ReadOf (Some JNull) k))"
| "get (Some v) k = Inr (member v k)"

fun num_to_string :: "engine \<Rightarrow> num \<Rightarrow> string" where
  "num_to_string G (Fin q) = number_to_string G q"
| "num_to_string G PInf = ''Infinity''"
| "num_to_string G NInf = ''-Infinity''"
| "num_to_string G NaN = ''NaN''"

text \<open>
  The conversion of a value to a string, as a template literal, \<open>new Error\<close> and
  \<open>setItem\<close> do it.  An array joins its elements with commas, \<open>null\<close> elements
  printing as nothing.  A parsed object prints as \<open>[object Object]\<close>, unless it has a
  property \<open>toString\<close> of its own: that property is data, not a function, and the
  conversion raises a \<open>TypeError\<close>.
\<close>

fun to_string :: "engine \<Rightarrow> json \<Rightarrow> exn + string"
  and join :: "engine \<Rightarrow> json list \<Rightarrow> exn + string" where
  "to_string G JNull = Inr ''null''"
| "to_string G (JBool b) = Inr (if b then ''true'' else ''false'')"
| "to_string G (JNum n) = Inr (num_to_string G n)"
| "to_string G (JStr s) = Inr s"
| "to_string G (JArr xs) = join G xs"
| "to_string G (JObj kvs) =
     (if map_of kvs ''toString'' = None then Inr ''[object Object]'' else Inl (TypeError NotPrimitive))"
| "join G [] = Inr []"
| "join G (x # xs) =
     bind (if x = JNull then Inr [] else to_string G x) (\<lambda>s.
       if xs = [] then Inr s else bind (join G xs) (\<lambda>t. Inr (s @ '','' @ t)))"

fun to_str :: "engine \<Rightarrow> json option \<Rightarrow> exn + string" where
  "to_str G None = Inr ''undefined''"
| "to_str G (Some v) = to_string G v"

text \<open>\<open>x.toFixed(1)\<close> on a number.\<close>

definition toFixed1 :: "engine \<Rightarrow> num \<Rightarrow> string" where
  "toFixed1 G x =
     (case x of
        Fin q \<Rightarrow>
          (if q < 0 then ''-'' else '''') @
          (if 10 ^ 21 \<le> \<bar>q\<bar> then number_to_string G \<bar>q\<bar>
           else let n = nat \<lfloor>\<bar>q\<bar> * 10 + 1 / 2\<rfloor>
                in show_nat (n div 10) @ ''.'' @ show_nat (n mod 10))
      | _ \<Rightarrow> num_to_string G x)"

text \<open>\<open>s.replace("_", " ")\<close> on a string: a string pattern matches once, at its first occurrence.\<close>

fun replace :: "char \<Rightarrow> char \<Rightarrow> string \<Rightarrow> string" where
  "replace a b [] = []"
| "replace a b (c # cs) = (if c = a then b # cs else c # replace a b cs)"

text \<open>
  The operator \<open>+\<close>: arrays and objects are first converted to strings; if one operand is
  then a string the result is the concatenation, otherwise the sum of the operands as
  numbers (\<open>null\<close> and \<open>false\<close> count 0, \<open>true\<close> counts 1).
\<close>

fun to_primitive :: "engine \<Rightarrow> json \<Rightarrow> exn + json" where
  "to_primitive G (JArr xs) = bind (to_string G (JArr xs)) (\<lambda>s. Inr (JStr s))"
| "to_primitive G (JObj kvs) = bind (to_string G (JObj kvs)) (\<lambda>s. Inr (JStr s))"
| "to_primitive G v = Inr v"

fun is_string :: "json \<Rightarrow> bool" where
  "is_string (JStr s) = True"
| "is_string _ = False"

fun to_number :: "json \<Rightarrow> num" where
  "to_number JNull = Fin 0"
| "to_number (JBool b) = Fin (if b then 1 else 0)"
| "to_number (JNum n) = n"
| "to_number _ = NaN"   \<comment> \<open>not reached from \<open>js_plus\<close>, which concatenates strings\<close>

definition js_plus :: "engine \<Rightarrow> json \<Rightarrow> json \<Rightarrow> exn + json" where
  "js_plus G a b =
     bind (to_primitive G a) (\<lambda>pa.
     bind (to_primitive G b) (\<lambda>pb.
       if is_string pa \<or> is_string pb
       then bind (to_string G pa) (\<lambda>sa. bind (to_string G pb) (\<lambda>sb. Inr (JStr (sa @ sb))))
       else Inr (JNum (fadd (to_number pa) (to_number pb)))))"

text \<open>\<open>v.length\<close>: arrays and strings have one; on an object it is a property like any other.\<close>

fun length_of :: "json option \<Rightarrow> exn + json option" where
  "length_of None = Inl (TypeError (ReadOf None ''length''))"
| "length_of (Some JNull) = Inl (TypeError (ReadOf (Some JNull) ''length''))"
| "length_of (Some (JArr xs)) = Inr (Some (JNum (Fin (of_nat (length xs)))))"
| "length_of (Some (JStr s)) = Inr (Some (JNum (Fin (of_nat (length s)))))"
| "length_of (Some v) = Inr (member v ''length'')"

text \<open>\<open>v.replace("_", " ")\<close> and \<open>v.toFixed(1)\<close>: only a string has the one, only a number the other.\<close>

fun call_replace :: "json option \<Rightarrow> exn + string" where
  "call_replace None = Inl (TypeError (ReadOf None ''replace''))"
| "call_replace (Some JNull) = Inl (TypeError (ReadOf (Some JNull) ''replace''))"
| "call_replace (Some (JStr s)) = Inr (replace CHR ''_'' CHR '' '' s)"
| "call_replace (Some v) = Inl (TypeError (NotFunction ''replace''))"

fun call_toFixed :: "engine \<Rightarrow> json option \<Rightarrow> exn + string" where
  "call_toFixed G None = Inl (TypeError (ReadOf None ''toFixed''))"
| "call_toFixed G (Some JNull) = Inl (TypeError (ReadOf (Some JNull) ''toFixed''))"
| "call_toFixed G (Some (JNum n)) = Inr (toFixed1 G n)"
| "call_toFixed G (Some v) = Inl (TypeError (NotFunction ''toFixed''))"

text \<open>The string that assigning a value to \<open>textContent\<close> stores: nothing for \<open>null\<close> and \<open>undefined\<close>.\<close>

fun dom_string :: "engine \<Rightarrow> json option \<Rightarrow> exn + string" where
  "dom_string G None = Inr []"
| "dom_string G (Some JNull) = Inr []"
| "dom_string G (Some v) = to_string G v"

section \<open>The page, the session store and the network\<close>

record request =
  path :: string
  "method" :: "string option"
  headers :: "string \<rightharpoonup> string"
  body :: "json option"   \<comment> \<open>the value whose \<open>JSON.stringify\<close> is the body\<close>

text \<open>The second argument of \<open>apiRequest\<close>; an absent field is \<open>None\<close>.\<close>

record options =
  opt_method :: "string option"
  opt_headers :: "(string \<rightharpoonup> string) option"
  opt_body :: "json option"

definition no_options :: options where
  "no_options = \<lparr>opt_method = None, opt_headers = None, opt_body = None\<rparr>"

text \<open>A response: its status, and what \<open>res.json()\<close> settles to (a rejection when the body is not JSON).\<close>

record response =
  status :: nat
  json_body :: "exn + json"

definition ok :: "response \<Rightarrow> bool" where
  "ok res = (200 \<le> status res \<and> status res \<le> 299)"

text \<open>What the program does to the network, in order: a call of \<open>fetch\<close>, a call of \<open>res.json()\<close>.\<close>

datatype event = Fetch request | Json

text \<open>
  The nodes a task list holds: an element (tag, class, children, click listener), a text,
  or the nodes that the parser makes of a piece of markup.  The only listener is the one of
  a delete button, a closure over its task.
\<close>

datatype listener = DeleteTask json

datatype node =
    Element string string "node list" "listener option"
  | Text string
  | Html string

record element =
  textContent :: string
  hidden :: bool

record credentials =
  email :: string
  password :: string

record task_form =
  title_value :: string
  status_value :: string
  time_logged_value :: string

text \<open>
  The state a handler runs in: the item \<open>devtask_token\<close> of \<open>localStorage\<close>, the
  elements the program looks up by id (\<open>None\<close> when the page has none), the fields of
  the new-task form and the values \<open>form.reset()\<close> gives them, the address of the
  window, the events so far, and the rest of the world, which \<open>fetch\<close> reads and
  changes.  A handler runs to its end before another starts, and \<open>localStorage\<close> does
  not fail.
\<close>

record 'w state =
  storage :: "string option"
  login_error :: "element option"
  signup_error :: "element option"
  task_list :: "node list option"
  task_stats :: "string option"
  new_task_form :: task_form
  new_task_form_default :: task_form
  href :: string
  trace :: "event list"
  world :: 'w

type_synonym 'w fetch = "'w \<Rightarrow> request \<Rightarrow> (exn + response) \<times> 'w"

section \<open>Session store\<close>

definition API_BASE :: string where
  "API_BASE = []"

definition getToken :: "'w state \<Rightarrow> string option" where
  "getToken s = storage s"

definition setToken :: "engine \<Rightarrow> json option \<Rightarrow> 'w state \<Rightarrow> exn + 'w state" where
  "setToken G token s =
     (if truthy token then bind (to_str G token) (\<lambda>t. Inr (s\<lparr>storage := Some t\<rparr>))
      else Inr (s\<lparr>storage := None\<rparr>))"

section \<open>API client\<close>

text \<open>The argument of \<open>fetch\<close>: the options, with the merged headers in place of theirs.\<close>

definition fetch_args :: "string option \<Rightarrow> string \<Rightarrow> options \<Rightarrow> request" where
  "fetch_args token p options =
     \<lparr>path = API_BASE @ p,
      method = opt_method options,
      headers =
        [''Content-Type'' \<mapsto> ''application/json'']
        ++ (case opt_headers options of None \<Rightarrow> Map.empty | Some h \<Rightarrow> h)
        ++ (case token of
              None \<Rightarrow> Map.empty
            | Some t \<Rightarrow> if t \<noteq> [] then [''Authorization'' \<mapsto> ''Bearer '' @ t] else Map.empty),
      body = opt_body options\<rparr>"

definition apiRequest ::
  "engine \<Rightarrow> 'w fetch \<Rightarrow> string \<Rightarrow> options \<Rightarrow> 'w state \<Rightarrow> (exn + json) \<times> 'w state" where
  "apiRequest G fetch p options s =
     (let req = fetch_args (getToken s) p options;
          answer = fetch (world s) req;
          s1 = s\<lparr>trace := trace s @ [Fetch req], world := snd answer\<rparr>
      in case fst answer of
           Inl e \<Rightarrow> (Inl e, s1)
         | Inr res \<Rightarrow>
             if \<not> ok res then
               (let s2 = s1\<lparr>trace := trace s1 @ [Json]\<rparr>;
                    msg = (case bind (json_body res) (\<lambda>data. get (Some data) ''detail'') of
                             Inl e \<Rightarrow> JStr ''Request failed''
                           | Inr detail \<Rightarrow> or_else detail (JStr ''Request failed''))
                in (case to_string G msg of Inl e \<Rightarrow> Inl e | Inr m \<Rightarrow> Inl (Error m), s2))
             else if status res = 204 then (Inr JNull, s1)
             else (json_body res, s1\<lparr>trace := trace s1 @ [Json]\<rparr>))"

text \<open>The options \<open>{method: "POST", body: JSON.stringify(payload)}\<close>.\<close>

definition post :: "json \<Rightarrow> options" where
  "post payload = \<lparr>opt_method = Some ''POST'', opt_headers = None, opt_body = Some payload\<rparr>"

section \<open>Authentication controllers\<close>

text \<open>
  A handler is an \<open>async\<close> function: it returns its state with \<open>Inr ()\<close> when its
  promise is fulfilled and \<open>Inl e\<close> when it is rejected with \<open>e\<close>, which nothing
  catches.  \<open>form\<close> is \<open>e.target\<close>; \<open>e.preventDefault()\<close> changes nothing of the
  state.
\<close>

definition payload_of :: "credentials \<Rightarrow> json" where
  "payload_of form = JObj [(''email'', JStr (email form)), (''password'', JStr (password form))]"

definition handleLogin ::
  "engine \<Rightarrow> 'w fetch \<Rightarrow> credentials \<Rightarrow> 'w state \<Rightarrow> (exn + unit) \<times> 'w state" where
  "handleLogin G fetch form s =
     (case login_error s of
        None \<Rightarrow> (Inl (TypeError (WriteOf ''login-error'' ''hidden'')), s)
      | Some errorEl \<Rightarrow>
          (let s0 = s\<lparr>login_error := Some (errorEl\<lparr>hidden := True\<rparr>)\<rparr>;
               payload = payload_of form;
               called = apiRequest G fetch ''/auth/login'' (post payload) s0;
               s1 = snd called
           in (case bind (fst called) (\<lambda>data.
                   bind (get (Some data) ''access_token'') (\<lambda>token. setToken G token s1)) of
                Inr s2 \<Rightarrow> (Inr (), s2\<lparr>href := ''/static/dashboard.html''\<rparr>)
              | Inl err \<Rightarrow>
                  (Inr (), s1\<lparr>login_error :=
                                 Some (errorEl\<lparr>textContent := message G err, hidden := False\<rparr>)\<rparr>))))"

definition handleSignup ::
  "engine \<Rightarrow> 'w fetch \<Rightarrow> credentials \<Rightarrow> 'w state \<Rightarrow> (exn + unit) \<times> 'w state" where
  "handleSignup G fetch form s =
     (case signup_error s of
        None \<Rightarrow> (Inl (TypeError (WriteOf ''signup-error'' ''hidden'')), s)
      | Some errorEl \<Rightarrow>
          (let s0 = s\<lparr>signup_error := Some (errorEl\<lparr>hidden := True\<rparr>)\<rparr>;
               payload = payload_of form;
               registered = apiRequest G fetch ''/auth/register'' (post payload) s0;
               s1 = snd registered;
               shown = (\<lambda>err t. (Inr (), t\<lparr>signup_error :=
                          Some (errorEl\<lparr>textContent := message G err, hidden := False\<rparr>)\<rparr>))
           in (case fst registered of
                Inl err \<Rightarrow> shown err s1
              | Inr _ \<Rightarrow>
                  \<comment> \<open>Auto-login after signup\<close>
                  (let called = apiRequest G fetch ''/auth/login'' (post payload) s1;
                       s2 = snd called
                   in (case bind (fst called) (\<lambda>login.
                            bind (get (Some login) ''access_token'') (\<lambda>token. setToken G token s2)) of
                         Inr s3 \<Rightarrow> (Inr (), s3\<lparr>href := ''/static/dashboard.html''\<rparr>)
                       | Inl err \<Rightarrow> shown err s2)))))"

section \<open>Dashboard\<close>

definition placeholder :: string where
  "placeholder = ''<p>No tasks yet. Create your first one above.</p>''"

text \<open>The bullet U+2022 of the summary line, in UTF-8.\<close>

definition bullet :: string where
  "bullet = [CHR 0xE2, CHR 0x80, CHR 0xA2]"

text \<open>The children that assigning to \<open>textContent\<close> and to \<open>innerHTML\<close> leaves.\<close>

definition text_of :: "string \<Rightarrow> node list" where
  "text_of t = (if t = [] then [] else [Text t])"

definition html_of :: "string \<Rightarrow> node list" where
  "html_of m = (if m = [] then [] else [Html m])"

text \<open>The row of a task, from the strings computed for it.\<close>

definition task_item :: "string \<Rightarrow> string \<Rightarrow> string \<Rightarrow> string \<Rightarrow> json \<Rightarrow> node" where
  "task_item title cls label hours task =
     Element ''div'' ''task-item''
       [Element ''div'' ''task-item-title'' (text_of title) None,
        Element ''div'' []
          [Element ''span'' (''task-status-pill task-status-'' @ cls) (text_of label) None] None,
        Element ''div'' ''task-item-meta'' (text_of (hours @ ''h logged'')) None,
        Element ''div'' ''task-actions''
          [Element ''button'' ''btn btn-ghost'' (text_of ''Delete'') (Some (DeleteTask task))] None]
       None"

text \<open>
  One call of the function given to \<open>forEach\<close>, on \<open>totalHours\<close>, \<open>done\<close> and the
  children of the list so far.  Once \<open>task.time_logged\<close> has been read, \<open>task\<close> is
  neither \<open>null\<close> nor \<open>undefined\<close>, and its other properties are read with
  \<open>member\<close>.
\<close>

definition render_task ::
  "engine \<Rightarrow> json \<Rightarrow> json \<times> nat \<times> node list \<Rightarrow> exn + json \<times> nat \<times> node list" where
  "render_task G task acc =
     (case acc of (totalHours, done, rows) \<Rightarrow>
        bind (get (Some task) ''time_logged'') (\<lambda>time_logged.
        bind (js_plus G totalHours (or_else time_logged (JNum (Fin 0)))) (\<lambda>totalHours'.
        let status = member task ''status'';
            done' = (if status = Some (JStr ''done'') then done + 1 else done)
        in
        bind (dom_string G (member task ''title'')) (\<lambda>title.
        bind (to_str G status) (\<lambda>cls.
        bind (call_replace status) (\<lambda>label.
        bind (call_toFixed G time_logged) (\<lambda>hours.
        Inr (totalHours', done', rows @ [task_item title cls label hours task]))))))))"

text \<open>
  \<open>forEach\<close>: either the exception that stopped it, with the rows appended until then, or
  \<open>totalHours\<close>, \<open>done\<close> and the rows at its end.
\<close>

fun forEach_task ::
  "engine \<Rightarrow> json list \<Rightarrow> json \<times> nat \<times> node list \<Rightarrow> exn \<times> node list + json \<times> nat \<times> node list" where
  "forEach_task G [] acc = Inr acc"
| "forEach_task G (task # tasks) acc =
     (case render_task G task acc of
        Inl e \<Rightarrow> Inl (e, snd (snd acc))
      | Inr acc' \<Rightarrow> forEach_task G tasks acc')"

text \<open>The assignment \<open>statsEl.textContent = t\<close>, where \<open>statsEl\<close> may be \<open>null\<close>.\<close>

definition set_stats :: "string \<Rightarrow> 'w state \<Rightarrow> exn option \<times> 'w state" where
  "set_stats t s =
     (case task_stats s of
        None \<Rightarrow> (Some (TypeError (WriteOf ''task-stats'' ''textContent'')), s)
      | Some _ \<Rightarrow> (None, s\<lparr>task_stats := Some t\<rparr>))"

text \<open>
  The \<open>try\<close> block of \<open>loadTasks\<close> after the request has returned \<open>data\<close>: the
  exception it throws, if any, and the state it leaves.
\<close>

definition render_list :: "engine \<Rightarrow> json \<Rightarrow> 'w state \<Rightarrow> exn option \<times> 'w state" where
  "render_list G data s =
     (let s1 = s\<lparr>task_list := Some (html_of [])\<rparr>
      in case bind (get (Some data) ''items'') (\<lambda>items.
              bind (length_of items) (\<lambda>n. Inr (items, n))) of
           Inl e \<Rightarrow> (Some e, s1)
         | Inr (items, n) \<Rightarrow>
             if \<not> truthy n then set_stats [] (s1\<lparr>task_list := Some (html_of placeholder)\<rparr>)
             else
               (case items of
                  Some (JArr tasks) \<Rightarrow>
                    (case forEach_task G tasks (JNum (Fin 0), 0, []) of
                       Inl (e, rows) \<Rightarrow> (Some e, s1\<lparr>task_list := Some rows\<rparr>)
                     | Inr (totalHours, done, rows) \<Rightarrow>
                         (case call_toFixed G (Some totalHours) of
                            Inl e \<Rightarrow> (Some e, s1\<lparr>task_list := Some rows\<rparr>)
                          | Inr hours \<Rightarrow>
                              set_stats
                                (show_nat (length tasks) @ '' tasks '' @ bullet @ '' '' @
                                 show_nat done @ '' completed '' @ bullet @ '' '' @
                                 hours @ ''h logged'')
                                (s1\<lparr>task_list := Some rows\<rparr>)))
                | _ \<Rightarrow> (Some (TypeError (NotFunction ''forEach'')), s1)))"

text \<open>The \<open>catch\<close> block of \<open>loadTasks\<close>; what it throws is not caught.\<close>

definition show_error :: "engine \<Rightarrow> exn \<Rightarrow> 'w state \<Rightarrow> (exn + unit) \<times> 'w state" where
  "show_error G err s =
     (case set_stats [] (s\<lparr>task_list := Some (html_of (''<p>'' @ message G err @ ''</p>''))\<rparr>) of
        (Some e, s') \<Rightarrow> (Inl e, s')
      | (None, s') \<Rightarrow> (Inr (), s'))"

definition loadTasks :: "engine \<Rightarrow> 'w fetch \<Rightarrow> 'w state \<Rightarrow> (exn + unit) \<times> 'w state" where
  "loadTasks G fetch s =
     (case task_list s of
        None \<Rightarrow> (Inr (), s)
      | Some listEl \<Rightarrow>
          (let called = apiRequest G fetch ''/tasks'' no_options s
           in (case fst called of
                 Inl err \<Rightarrow> show_error G err (snd called)
               | Inr data \<Rightarrow>
                   (case render_list G data (snd called) of
                      (Some err, s') \<Rightarrow> show_error G err s'
                    | (None, s') \<Rightarrow> (Inr (), s')))))"

text \<open>
  The click listener of a row's delete button; \<open>confirmed\<close> is the answer to the
  prompt.  \<open>loadTasks()\<close> is called and not awaited: the request of the reload leaves
  within the listener, and a rejection of the reload is not one of the listener.
\<close>

definition delBtn_click ::
  "engine \<Rightarrow> 'w fetch \<Rightarrow> bool \<Rightarrow> json \<Rightarrow> 'w state \<Rightarrow> (exn + unit) \<times> 'w state" where
  "delBtn_click G fetch confirmed task s =
     (if \<not> confirmed then (Inr (), s)
      else
        (case bind (get (Some task) ''id'') (to_str G) of
           Inl e \<Rightarrow> (Inl e, s)
         | Inr ident \<Rightarrow>
             (let called = apiRequest G fetch (''/tasks/'' @ ident)
                             \<lparr>opt_method = Some ''DELETE'', opt_headers = None, opt_body = None\<rparr> s
              in (case fst called of
                    Inl e \<Rightarrow> (Inl e, snd called)
                  | Inr _ \<Rightarrow> (Inr (), snd (loadTasks G fetch (snd called)))))))"

text \<open>\<open>JSON.stringify\<close> writes a number that is not finite as \<open>null\<close>.\<close>

fun stringify_num :: "num \<Rightarrow> json" where
  "stringify_num (Fin q) = JNum (Fin q)"
| "stringify_num _ = JNull"

definition handleNewTask :: "engine \<Rightarrow> 'w fetch \<Rightarrow> 'w state \<Rightarrow> (exn + unit) \<times> 'w state" where
  "handleNewTask G fetch s =
     (let form = new_task_form s;
          payload = JObj
            [(''title'', JStr (title_value form)),
             (''status'', JStr (status_value form)),
             (''time_logged'',
                stringify_num (if time_logged_value form \<noteq> []
                               then parse_float G (time_logged_value form) else Fin 0))];
          called = apiRequest G fetch ''/tasks'' (post payload) s
      in (case fst called of
            Inl e \<Rightarrow> (Inl e, snd called)
          | Inr _ \<Rightarrow>
              (Inr (),
               snd (loadTasks G fetch ((snd called)\<lparr>new_task_form := new_task_form_default s\<rparr>)))))"

text \<open>The click listener of the logout button.\<close>

definition logout :: "engine \<Rightarrow> 'w state \<Rightarrow> exn + 'w state" where
  "logout G s = bind (setToken G (Some JNull) s) (\<lambda>s'. Inr (s'\<lparr>href := ''/''\<rparr>))"

section \<open>Inputs for the examples\<close>

text \<open>
  An engine for the examples: it prints the integer part of a number, which is what the
  standard asks for on the integers below \<open>10 ^ 21\<close>; no example depends on the rest.
\<close>

definition example_engine :: engine where
  "example_engine =
     \<lparr>number_to_string = (\<lambda>q. (if q < 0 then ''-'' else []) @ show_nat (nat \<lfloor>\<bar>q\<bar>\<rfloor>)),
      type_error_message = (\<lambda>f. ''TypeError''),
      parse_float = (\<lambda>t. NaN)\<rparr>"

text \<open>A server that gives the answer listed for the path of the request, and \<open>other\<close> elsewhere.\<close>

definition routes :: "(string \<times> (exn + response)) list \<Rightarrow> exn + response \<Rightarrow> unit fetch" where
  "routes table other w req =
     (case map_of table (path req) of Some answer \<Rightarrow> (answer, w) | None \<Rightarrow> (other, w))"

definition answer :: "nat \<Rightarrow> json \<Rightarrow> exn + response" where
  "answer code v = Inr \<lparr>status = code, json_body = Inr v\<rparr>"

text \<open>A page that has every element the program looks up, an empty task list and empty forms.\<close>

definition example_state :: "string option \<Rightarrow> unit state" where
  "example_state token =
     \<lparr>storage = token,
      login_error = Some \<lparr>textContent = [], hidden = True\<rparr>,
      signup_error = Some \<lparr>textContent = [], hidden = True\<rparr>,
      task_list = Some [],
      task_stats = Some [],
      new_task_form = \<lparr>title_value = ''T'', status_value = ''todo'', time_logged_value = []\<rparr>,
      new_task_form_default = \<lparr>title_value = [], status_value = ''todo'', time_logged_value = []\<rparr>,
      href = ''/'',
      trace = [],
      world = ()\<rparr>"

definition example_form :: credentials where
  "example_form = \<lparr>email = ''a@b.c'', password = ''pw''\<rparr>"

text \<open>A server that accepts the registration and rejects the login that follows.\<close>

definition signup_only :: "unit fetch" where
  "signup_only =
     routes [(''/auth/register'', answer 201 (JObj [(''email'', JStr ''a@b.c'')]))]
       (answer 401 (JObj [(''detail'', JStr ''Invalid credentials'')]))"

text \<open>A server that fails every request.\<close>

definition server_error :: "unit fetch" where
  "server_error = routes [] (answer 500 (JObj [(''detail'', JStr ''boom'')]))"

text \<open>A server that lists the given tasks, whatever the request.\<close>

definition listing :: "json list \<Rightarrow> unit fetch" where
  "listing tasks = routes [] (answer 200 (JObj [(''items'', JArr tasks)]))"

definition task_A :: json where
  "task_A = JObj [(''title'', JStr ''A''), (''status'', JStr ''done''), (''time_logged'', JNum (Fin (9 / 4)))]"

definition task_B :: json where
  "task_B = JObj [(''title'', JStr ''B''), (''status'', JStr ''todo''), (''time_logged'', JNum (Fin 1))]"

definition task_C :: json where
  "task_C = JObj [(''id'', JNum (Fin 3)), (''title'', JStr ''C''), (''status'', JStr ''a_b_c''),
                  (''time_logged'', JNum (Fin (1 / 2)))]"

text \<open>A task without \<open>time_logged\<close>.\<close>

definition task_N :: json where
  "task_N = JObj [(''id'', JNum (Fin 9)), (''title'', JStr ''N''), (''status'', JStr ''todo'')]"

definition task_7 :: json where
  "task_7 = JObj [(''id'', JNum (Fin 7)), (''title'', JStr ''T''), (''status'', JStr ''todo''),
                  (''time_logged'', JNum (Fin 1))]"

text \<open>A server that refuses to delete task 7, and lists no task.\<close>

definition delete_refused :: "unit fetch" where
  "delete_refused =
     routes [(''/tasks/7'', answer 500 (JObj [(''detail'', JStr ''boom'')]))]
       (answer 200 (JObj [(''items'', JArr [])]))"

text \<open>A server that deletes task 7, answering 204 with no body, and lists no task.\<close>

definition delete_done :: "unit fetch" where
  "delete_done =
     routes [(''/tasks/7'', Inr \<lparr>status = 204, json_body = Inl (Error ''Unexpected end of JSON input'')\<rparr>)]
       (answer 200 (JObj [(''items'', JArr [])]))"

text \<open>The requests among the events, in order.\<close>

fun requests :: "event list \<Rightarrow> request list" where
  "requests [] = []"
| "requests (Fetch req # evs) = req # requests evs"
| "requests (Json # evs) = requests evs"

section \<open>Notions of the specification\<close>

text \<open>
  A task as the data model of the specification has it: an object whose \<open>title\<close> and
  \<open>status\<close> are strings and whose \<open>time_logged\<close> is a finite number.
\<close>

fun is_text :: "json option \<Rightarrow> bool" where
  "is_text (Some (JStr t)) = True"
| "is_text _ = False"

fun is_hours :: "json option \<Rightarrow> bool" where
  "is_hours (Some (JNum (Fin q))) = True"
| "is_hours _ = False"

definition is_task :: "json \<Rightarrow> bool" where
  "is_task task =
     (is_text (member task ''title'') \<and> is_text (member task ''status'')
      \<and> is_hours (member task ''time_logged''))"

fun text_in :: "json option \<Rightarrow> string" where
  "text_in (Some (JStr t)) = t"
| "text_in _ = []"

fun number_in :: "json option \<Rightarrow> num" where
  "number_in (Some (JNum n)) = n"
| "number_in _ = Fin 0"

definition title_of :: "json \<Rightarrow> string" where
  "title_of task = text_in (member task ''title'')"

definition status_of :: "json \<Rightarrow> string" where
  "status_of task = text_in (member task ''status'')"

definition hours_of :: "json \<Rightarrow> num" where
  "hours_of task = number_in (member task ''time_logged'')"

text \<open>The count of tasks with status \<open>done\<close>.\<close>

definition spec_done :: "json list \<Rightarrow> nat" where
  "spec_done tasks = length (filter (\<lambda>task. status_of task = ''done'') tasks)"

text \<open>The sum of \<open>time_logged\<close>: the hours added one task after the other, as doubles.\<close>

definition spec_hours :: "json list \<Rightarrow> num" where
  "spec_hours tasks = foldl fadd (Fin 0) (map hours_of tasks)"

text \<open>The summary line: the count, the \<open>done\<close>-count and the hours to one decimal place.\<close>

definition spec_summary :: "engine \<Rightarrow> json list \<Rightarrow> string" where
  "spec_summary G tasks =
     show_nat (length tasks) @ '' tasks '' @ bullet @ '' '' @
     show_nat (spec_done tasks) @ '' completed '' @ bullet @ '' '' @
     toFixed1 G (spec_hours tasks) @ ''h logged''"

text \<open>
  The row of a task: its title, a pill labelled by \<open>label\<close> of its status, its hours to one
  decimal place, and a delete button.
\<close>

definition spec_row :: "engine \<Rightarrow> (string \<Rightarrow> string) \<Rightarrow> json \<Rightarrow> node" where
  "spec_row G label task =
     Element ''div'' ''task-item''
       [Element ''div'' ''task-item-title'' (text_of (title_of task)) None,
        Element ''div'' []
          [Element ''span'' (''task-status-pill task-status-'' @ status_of task)
             (text_of (label (status_of task))) None] None,
        Element ''div'' ''task-item-meta'' (text_of (toFixed1 G (hours_of task) @ ''h logged'')) None,
        Element ''div'' ''task-actions''
          [Element ''button'' ''btn btn-ghost'' [Text ''Delete''] (Some (DeleteTask task))] None]
       None"

text \<open>A status string with underscores replaced by spaces.\<close>

definition spec_label :: "string \<Rightarrow> string" where
  "spec_label label = map (\<lambda>c. if c = CHR ''_'' then CHR '' '' else c) label"

section \<open>Properties of the API client\<close>

lemma requests_append: "requests (xs @ ys) = requests xs @ requests ys"
  by (induction xs rule: requests.induct) simp_all

lemma get_Some:
  "get (Some v) k = (if v = JNull then Inl (TypeError (ReadOf (Some JNull) k)) else Inr (member v k))"
  by (cases v) simp_all

lemma or_else_falsy: "\<not> truthy v \<Longrightarrow> or_else v b = b"
  by (cases v) simp_all

text \<open>A call of \<open>apiRequest\<close> touches neither the session store nor the page, and sends one request.\<close>

lemma apiRequest_page:
  "snd (apiRequest G fetch p opts s) =
     s\<lparr>trace := trace (snd (apiRequest G fetch p opts s)),
       world := world (snd (apiRequest G fetch p opts s))\<rparr>"
  by (simp add: apiRequest_def Let_def split: sum.splits)

lemma apiRequest_requests:
  "requests (trace (snd (apiRequest G fetch p opts s))) =
     requests (trace s) @ [fetch_args (storage s) p opts]"
  by (simp add: apiRequest_def Let_def getToken_def requests_append split: sum.splits)

text \<open>
  C5: every call of \<open>apiRequest\<close> sends one request, whose headers are the default JSON
  content type, overridden by the caller's headers, overridden by the \<open>Authorization\<close>
  bearer header when a token is stored: with a token stored, \<open>Authorization\<close> is the
  bearer header whatever the caller supplied, and any other header of the caller is sent
  as the caller gave it.
\<close>

theorem apiRequest_headers:
  "\<exists>req. requests (trace (snd (apiRequest G fetch p opts s))) = requests (trace s) @ [req]
     \<and> headers req =
         [''Content-Type'' \<mapsto> ''application/json'']
         ++ (case opt_headers opts of None \<Rightarrow> Map.empty | Some caller \<Rightarrow> caller)
         ++ (case storage s of
               None \<Rightarrow> Map.empty
             | Some t \<Rightarrow> if t \<noteq> [] then [''Authorization'' \<mapsto> ''Bearer '' @ t] else Map.empty)
     \<and> (\<forall>t. storage s = Some t \<and> t \<noteq> [] \<longrightarrow>
           headers req ''Authorization'' = Some (''Bearer '' @ t))
     \<and> (\<forall>caller k v. opt_headers opts = Some caller \<and> caller k = Some v \<and> k \<noteq> ''Authorization''
           \<longrightarrow> headers req k = Some v)"
  by (auto simp: apiRequest_requests fetch_args_def map_add_def split: option.splits)

theorem apiRequest_headers_witness:
  "\<exists>req. requests (trace (snd (apiRequest example_engine (routes [] (answer 200 JNull)) ''/tasks''
             \<lparr>opt_method = None,
              opt_headers = Some [''Authorization'' \<mapsto> ''Basic x'', ''Accept'' \<mapsto> ''text/plain''],
              opt_body = None\<rparr>
             (example_state (Some ''tok''))))) = [req]
     \<and> headers req ''Authorization'' = Some ''Bearer tok''
     \<and> headers req ''Accept'' = Some ''text/plain''"
proof -
  let ?opts = "\<lparr>opt_method = None,
      opt_headers = Some [''Authorization'' \<mapsto> ''Basic x'', ''Accept'' \<mapsto> ''text/plain''],
      opt_body = None\<rparr>"
  from apiRequest_headers [of example_engine "routes [] (answer 200 JNull)" "''/tasks''" ?opts
      "example_state (Some ''tok'')"]
  obtain req where
    sent: "requests (trace (snd (apiRequest example_engine (routes [] (answer 200 JNull)) ''/tasks''
             ?opts (example_state (Some ''tok''))))) = requests (trace (example_state (Some ''tok''))) @ [req]"
    and bearer: "\<forall>t. storage (example_state (Some ''tok'')) = Some t \<and> t \<noteq> [] \<longrightarrow>
           headers req ''Authorization'' = Some (''Bearer '' @ t)"
    and others: "\<forall>caller k v. opt_headers ?opts = Some caller \<and> caller k = Some v \<and> k \<noteq> ''Authorization''
           \<longrightarrow> headers req k = Some v"
    by blast
  from bearer have "headers req ''Authorization'' = Some ''Bearer tok''"
    by (simp add: example_state_def)
  moreover from others have "headers req ''Accept'' = Some ''text/plain''"
    by simp
  moreover from sent have "requests (trace (snd (apiRequest example_engine (routes [] (answer 200 JNull)) ''/tasks''
             ?opts (example_state (Some ''tok''))))) = [req]"
    by (simp add: example_state_def)
  ultimately show ?thesis by blast
qed

text \<open>
  C9: when the response has status 204, \<open>apiRequest\<close> returns \<open>null\<close> after the one call
  of \<open>fetch\<close>, with no call of \<open>res.json()\<close>.
\<close>

theorem apiRequest_no_content:
  assumes "fetch (world s) (fetch_args (storage s) p opts) = (Inr res, w)"
    and "status res = 204"
  shows "apiRequest G fetch p opts s =
           (Inr JNull, s\<lparr>trace := trace s @ [Fetch (fetch_args (storage s) p opts)], world := w\<rparr>)
         \<and> count_list (trace (snd (apiRequest G fetch p opts s))) Json = count_list (trace s) Json"
  using assms by (simp add: apiRequest_def Let_def getToken_def ok_def)

theorem apiRequest_no_content_witness:
  "fst (apiRequest example_engine (routes [] (Inr \<lparr>status = 204, json_body = Inl (Error ''Unexpected end of JSON input'')\<rparr>))
          ''/tasks/7'' no_options (example_state None)) = Inr JNull
   \<and> count_list (trace (snd (apiRequest example_engine
          (routes [] (Inr \<lparr>status = 204, json_body = Inl (Error ''Unexpected end of JSON input'')\<rparr>))
          ''/tasks/7'' no_options (example_state None)))) Json = 0"
  using apiRequest_no_content
    [of "routes [] (Inr \<lparr>status = 204, json_body = Inl (Error ''Unexpected end of JSON input'')\<rparr>)"
        "example_state None" "''/tasks/7''" no_options
        "\<lparr>status = 204, json_body = Inl (Error ''Unexpected end of JSON input'')\<rparr>" "()" example_engine]
  by (simp add: routes_def example_state_def)

text \<open>
  C2, as the claim states it, fails: a response of status 400 whose body is the valid JSON
  \<open>{"detail": ""}\<close> has \<open>detail\<close> present, and the message thrown is the fallback, not
  \<open>detail\<close>.
\<close>

theorem apiRequest_empty_detail:
  "member (JObj [(''detail'', JStr [])]) ''detail'' = Some (JStr [])
   \<and> fst (apiRequest example_engine (routes [] (answer 400 (JObj [(''detail'', JStr [])])))
            ''/tasks'' no_options (example_state None)) = Inl (Error ''Request failed'')"
  by (simp add: apiRequest_def Let_def getToken_def routes_def answer_def ok_def bind_def
      example_state_def)

text \<open>
  C2, amended: for every response with a non-2xx status \<open>apiRequest\<close> throws.  The message
  thrown is \<open>detail\<close> when the body is valid JSON whose \<open>detail\<close> is a non-empty string;
  it is \<open>Request failed\<close> when the body is not valid JSON or when \<open>detail\<close> is absent or
  falsy (the empty string, \<open>null\<close>, \<open>false\<close>, 0); for any other \<open>detail\<close> it is the
  conversion of \<open>detail\<close> to a string, unless that conversion throws.
\<close>

theorem apiRequest_error_message:
  assumes "fetch (world s) (fetch_args (storage s) p opts) = (Inr res, w)"
    and "\<not> ok res"
  shows "(\<exists>e. fst (apiRequest G fetch p opts s) = Inl e)
    \<and> (\<forall>data d. json_body res = Inr data \<and> member data ''detail'' = Some (JStr d) \<and> d \<noteq> []
          \<longrightarrow> fst (apiRequest G fetch p opts s) = Inl (Error d))
    \<and> ((\<exists>e. json_body res = Inl e)
        \<or> (\<exists>data. json_body res = Inr data \<and> \<not> truthy (member data ''detail''))
          \<longrightarrow> fst (apiRequest G fetch p opts s) = Inl (Error ''Request failed''))
    \<and> (\<forall>data v. json_body res = Inr data \<and> member data ''detail'' = Some v \<and> truthy (Some v)
          \<longrightarrow> fst (apiRequest G fetch p opts s) =
              (case to_string G v of Inl e \<Rightarrow> Inl e | Inr m \<Rightarrow> Inl (Error m)))"
proof -
  let ?msg = "case bind (json_body res) (\<lambda>data. get (Some data) ''detail'') of
                Inl e \<Rightarrow> JStr ''Request failed''
              | Inr detail \<Rightarrow> or_else detail (JStr ''Request failed'')"
  have run: "fst (apiRequest G fetch p opts s) =
               (case to_string G ?msg of Inl e \<Rightarrow> Inl e | Inr m \<Rightarrow> Inl (Error m))"
    using assms by (simp add: apiRequest_def Let_def getToken_def)
  have throws: "\<exists>e. fst (apiRequest G fetch p opts s) = Inl e"
    unfolding run by (cases "to_string G ?msg") simp_all
  have given: "fst (apiRequest G fetch p opts s) =
                 (case to_string G v of Inl e \<Rightarrow> Inl e | Inr m \<Rightarrow> Inl (Error m))"
    if "json_body res = Inr data" "member data ''detail'' = Some v" "truthy (Some v)" for data v
  proof -
    from that(2) have "data \<noteq> JNull" by auto
    with that show ?thesis unfolding run by (simp add: bind_def get_Some)
  qed
  have fallback: "fst (apiRequest G fetch p opts s) = Inl (Error ''Request failed'')"
    if "(\<exists>e. json_body res = Inl e)
        \<or> (\<exists>data. json_body res = Inr data \<and> \<not> truthy (member data ''detail''))"
    using that unfolding run by (auto simp: bind_def get_Some or_else_falsy)
  have string: "fst (apiRequest G fetch p opts s) = Inl (Error d)"
    if "json_body res = Inr data" "member data ''detail'' = Some (JStr d)" "d \<noteq> []" for data d
    using given [of data "JStr d"] that by simp
  from throws string fallback given show ?thesis
    by blast
qed

theorem apiRequest_error_message_witness:
  "fst (apiRequest example_engine
          (routes [] (answer 404 (JObj [(''detail'', JStr ''Task not found'')])))
          ''/tasks/9'' no_options (example_state None)) = Inl (Error ''Task not found'')"
  using apiRequest_error_message
    [of "routes [] (answer 404 (JObj [(''detail'', JStr ''Task not found'')]))" "example_state None"
        "''/tasks/9''" no_options
        "\<lparr>status = 404, json_body = Inr (JObj [(''detail'', JStr ''Task not found'')])\<rparr>"
        "()" example_engine]
  by (simp add: routes_def answer_def ok_def example_state_def)

section \<open>Properties of the authentication controllers\<close>

lemma apiRequest_snd_storage: "storage (snd (apiRequest G fetch p opts s)) = storage s"
  by (subst apiRequest_page) simp

lemma apiRequest_storage: "apiRequest G fetch p opts s = (r, s') \<Longrightarrow> storage s' = storage s"
  using apiRequest_snd_storage [of G fetch p opts s] by simp

text \<open>
  C1, as the claim states it, fails: with the token \<open>old\<close> stored before, a registration
  that succeeds and a login that is rejected leave \<open>old\<close> in the session store.
\<close>

theorem handleSignup_keeps_token:
  "fst (apiRequest example_engine signup_only ''/auth/register'' (post (payload_of example_form))
          (example_state (Some ''old''))) = Inr (JObj [(''email'', JStr ''a@b.c'')])
   \<and> fst (apiRequest example_engine signup_only ''/auth/login'' (post (payload_of example_form))
          (example_state (Some ''old''))) = Inl (Error ''Invalid credentials'')
   \<and> storage (snd (handleSignup example_engine signup_only example_form (example_state (Some ''old''))))
       = Some ''old''"
  by (simp add: handleSignup_def apiRequest_def Let_def getToken_def signup_only_def routes_def
      answer_def ok_def bind_def example_state_def fetch_args_def API_BASE_def post_def)

text \<open>
  C1, amended: if the registration call of \<open>handleSignup\<close> succeeds and the login call
  that follows throws, then \<open>handleSignup\<close> completes with the session store as it was
  before (so with no token stored if none was stored before), and with the message of the
  login error shown in the signup error element.
\<close>

theorem handleSignup_login_fails:
  assumes "signup_error s = Some errorEl"
    and "apiRequest G fetch ''/auth/register'' (post (payload_of form))
           (s\<lparr>signup_error := Some (errorEl\<lparr>hidden := True\<rparr>)\<rparr>) = (Inr registered, s1)"
    and "apiRequest G fetch ''/auth/login'' (post (payload_of form)) s1 = (Inl err, s2)"
  shows "handleSignup G fetch form s =
           (Inr (), s2\<lparr>signup_error := Some (errorEl\<lparr>textContent := message G err, hidden := False\<rparr>)\<rparr>)
         \<and> storage (snd (handleSignup G fetch form s)) = storage s
         \<and> signup_error (snd (handleSignup G fetch form s)) =
             Some (errorEl\<lparr>textContent := message G err, hidden := False\<rparr>)"
proof -
  have run: "handleSignup G fetch form s =
           (Inr (), s2\<lparr>signup_error := Some (errorEl\<lparr>textContent := message G err, hidden := False\<rparr>)\<rparr>)"
    using assms by (simp add: handleSignup_def Let_def bind_def)
  have "storage s2 = storage s"
    using apiRequest_storage [OF assms(2)] apiRequest_storage [OF assms(3)] by simp
  with run show ?thesis by simp
qed

theorem handleSignup_login_fails_witness:
  "signup_error (snd (handleSignup example_engine signup_only example_form (example_state None))) =
     Some \<lparr>textContent = ''Invalid credentials'', hidden = False\<rparr>
   \<and> storage (snd (handleSignup example_engine signup_only example_form (example_state None))) =
       storage (example_state None)"
proof -
  let ?s0 = "(example_state None)
               \<lparr>signup_error := Some (\<lparr>textContent = [], hidden = True\<rparr>\<lparr>hidden := True\<rparr>)\<rparr>"
  let ?reg = "apiRequest example_engine signup_only ''/auth/register'' (post (payload_of example_form)) ?s0"
  let ?log = "apiRequest example_engine signup_only ''/auth/login'' (post (payload_of example_form)) (snd ?reg)"
  have el: "signup_error (example_state None) = Some \<lparr>textContent = [], hidden = True\<rparr>"
    by (simp add: example_state_def)
  have reg: "?reg = (Inr (JObj [(''email'', JStr ''a@b.c'')]), snd ?reg)"
    by (simp add: apiRequest_def Let_def getToken_def signup_only_def routes_def
      answer_def ok_def fetch_args_def API_BASE_def post_def)
  have log: "?log = (Inl (Error ''Invalid credentials''), snd ?log)"
    by (simp add: apiRequest_def Let_def getToken_def signup_only_def routes_def
      answer_def ok_def bind_def fetch_args_def API_BASE_def post_def)
  note fails = handleSignup_login_fails [OF el reg log]
  from fails have
    "signup_error (snd (handleSignup example_engine signup_only example_form (example_state None))) =
       Some (\<lparr>textContent = [], hidden = True\<rparr>
               \<lparr>textContent := message example_engine (Error ''Invalid credentials''), hidden := False\<rparr>)"
    by blast
  moreover from fails have
    "storage (snd (handleSignup example_engine signup_only example_form (example_state None))) =
       storage (example_state None)"
    by blast
  ultimately show ?thesis by simp
qed

text \<open>
  C8, as the claim states it, fails: a login answered with status 200 and the body
  \<open>{"access_token": ""}\<close> is successful, and leaves the session store empty: the stored
  token is absent, not the empty string of the response.
\<close>

theorem handleLogin_empty_token:
  "member (JObj [(''access_token'', JStr [])]) ''access_token'' = Some (JStr [])
   \<and> fst (apiRequest example_engine (routes [] (answer 200 (JObj [(''access_token'', JStr [])])))
           ''/auth/login'' (post (payload_of example_form)) (example_state (Some ''old'')))
       = Inr (JObj [(''access_token'', JStr [])])
   \<and> storage (snd (handleLogin example_engine (routes [] (answer 200 (JObj [(''access_token'', JStr [])])))
                 example_form (example_state (Some ''old'')))) = None"
  by (simp add: handleLogin_def apiRequest_def Let_def getToken_def setToken_def routes_def
      answer_def ok_def bind_def example_state_def)

text \<open>
  C8, amended: for every prior stored token and every successful login response whose
  \<open>access_token\<close> is a string, \<open>handleLogin\<close> completes with that string as the stored
  token when it is not empty, and with no token stored when it is empty; either way the
  prior token is replaced, and the window goes to the dashboard.
\<close>

theorem handleLogin_stores_token:
  assumes "login_error s = Some errorEl"
    and "apiRequest G fetch ''/auth/login'' (post (payload_of form))
           (s\<lparr>login_error := Some (errorEl\<lparr>hidden := True\<rparr>)\<rparr>) = (Inr data, s1)"
    and "member data ''access_token'' = Some (JStr token)"
  shows "handleLogin G fetch form s =
           (Inr (), s1\<lparr>storage := if token = [] then None else Some token,
                       href := ''/static/dashboard.html''\<rparr>)
         \<and> storage (snd (handleLogin G fetch form s)) = (if token = [] then None else Some token)"
proof -
  from assms(3) have "data \<noteq> JNull" by auto
  with assms show ?thesis
    by (simp add: handleLogin_def Let_def bind_def get_Some setToken_def)
qed

theorem handleLogin_stores_token_witness:
  "storage (snd (handleLogin example_engine (routes [] (answer 200 (JObj [(''access_token'', JStr ''new'')])))
                 example_form (example_state (Some ''old'')))) = Some ''new''"
proof -
  let ?F = "routes [] (answer 200 (JObj [(''access_token'', JStr ''new'')]))"
  let ?s0 = "(example_state (Some ''old''))
               \<lparr>login_error := Some (\<lparr>textContent = [], hidden = True\<rparr>\<lparr>hidden := True\<rparr>)\<rparr>"
  let ?call = "apiRequest example_engine ?F ''/auth/login'' (post (payload_of example_form)) ?s0"
  have el: "login_error (example_state (Some ''old'')) = Some \<lparr>textContent = [], hidden = True\<rparr>"
    by (simp add: example_state_def)
  have call: "?call = (Inr (JObj [(''access_token'', JStr ''new'')]), snd ?call)"
    by (simp add: apiRequest_def Let_def routes_def answer_def ok_def)
  have tok: "member (JObj [(''access_token'', JStr ''new'')]) ''access_token'' = Some (JStr ''new'')"
    by simp
  from handleLogin_stores_token [OF el call tok] show ?thesis
    by simp
qed

section \<open>Properties of the dashboard\<close>

lemma is_text_iff: "is_text v \<longleftrightarrow> (\<exists>t. v = Some (JStr t))"
  by (cases v rule: is_text.cases) simp_all

lemma is_hours_iff: "is_hours v \<longleftrightarrow> (\<exists>q. v = Some (JNum (Fin q)))"
  by (cases v rule: is_hours.cases) simp_all

lemma render_task_ok:
  assumes "is_task task"
  shows "render_task G task (JNum n, d, rows) =
           Inr (JNum (fadd n (hours_of task)),
                d + (if status_of task = ''done'' then 1 else 0),
                rows @ [spec_row G (replace CHR ''_'' CHR '' '') task])"
proof -
  from assms obtain title st q where
    fields: "member task ''title'' = Some (JStr title)" "member task ''status'' = Some (JStr st)"
      "member task ''time_logged'' = Some (JNum (Fin q))"
    by (auto simp: is_task_def is_text_iff is_hours_iff)
  then have "task \<noteq> JNull" by auto
  with fields show ?thesis
    by (simp add: render_task_def bind_def get_Some js_plus_def Let_def task_item_def spec_row_def
        title_of_def status_of_def hours_of_def text_of_def)
qed

lemma forEach_task_ok:
  "\<forall>task \<in> set tasks. is_task task \<Longrightarrow>
   forEach_task G tasks (JNum n, d, rows) =
     Inr (JNum (foldl fadd n (map hours_of tasks)), d + spec_done tasks,
          rows @ map (spec_row G (replace CHR ''_'' CHR '' '')) tasks)"
proof (induction tasks arbitrary: n d rows)
  case Nil
  then show ?case by (simp add: spec_done_def)
next
  case (Cons task tasks)
  then show ?case by (simp add: render_task_ok spec_done_def)
qed

lemma placeholder_html: "html_of placeholder = [Html placeholder]"
  by (simp add: html_of_def placeholder_def)

lemma render_list_ok:
  assumes "task_stats s = Some statsEl"
    and "member data ''items'' = Some (JArr tasks)"
    and "\<forall>task \<in> set tasks. is_task task"
  shows "render_list G data s =
     (None, if tasks = [] then s\<lparr>task_list := Some [Html placeholder], task_stats := Some []\<rparr>
            else s\<lparr>task_list := Some (map (spec_row G (replace CHR ''_'' CHR '' '')) tasks),
                   task_stats := Some (spec_summary G tasks)\<rparr>)"
proof -
  from assms(2) have "data \<noteq> JNull" by auto
  show ?thesis
  proof (cases "tasks = []")
    case True
    with assms \<open>data \<noteq> JNull\<close> show ?thesis
      by (simp add: render_list_def bind_def get_Some set_stats_def placeholder_html)
  next
    case False
    with assms \<open>data \<noteq> JNull\<close> show ?thesis
      by (simp add: render_list_def bind_def get_Some set_stats_def forEach_task_ok
          spec_summary_def spec_hours_def html_of_def)
  qed
qed

lemma apiRequest_fields:
  assumes "apiRequest G fetch p opts s = (r, s')"
  shows "storage s' = storage s \<and> task_list s' = task_list s \<and> task_stats s' = task_stats s
       \<and> new_task_form s' = new_task_form s \<and> href s' = href s"
proof -
  from assms have page: "s' = s\<lparr>trace := trace s', world := world s'\<rparr>"
    using apiRequest_page [of G fetch p opts s] by simp
  show ?thesis
    by (intro conjI; subst page; simp)
qed

lemma loadTasks_listed:
  assumes "task_list s = Some listEl" and "task_stats s = Some statsEl"
    and "apiRequest G fetch ''/tasks'' no_options s = (Inr data, s1)"
    and "member data ''items'' = Some (JArr tasks)"
    and "\<forall>task \<in> set tasks. is_task task"
  shows "loadTasks G fetch s =
     (Inr (), if tasks = [] then s1\<lparr>task_list := Some [Html placeholder], task_stats := Some []\<rparr>
              else s1\<lparr>task_list := Some (map (spec_row G (replace CHR ''_'' CHR '' '')) tasks),
                      task_stats := Some (spec_summary G tasks)\<rparr>)"
proof -
  from apiRequest_fields [OF assms(3)] assms(2) have "task_stats s1 = Some statsEl"
    by simp
  from render_list_ok [OF this assms(4,5)] assms(1,3) show ?thesis
    by (simp add: loadTasks_def)
qed

text \<open>
  C4: on a page that has the list and the summary element, for every fetched list of tasks
  (objects with a text title, a text status and a finite number of hours): if the list is
  empty, \<open>loadTasks\<close> leaves exactly the placeholder in the list and an empty summary;
  if it has N tasks, \<open>loadTasks\<close> leaves N rows in the list, the row of each task in
  the order of the tasks, and the summary made of the task count, the count of tasks with
  status \<open>done\<close>, and the sum of \<open>time_logged\<close> to one decimal place.  The witness is
  the example of the two tasks A and B.
\<close>

theorem loadTasks_renders:
  assumes "task_list s = Some listEl" and "task_stats s = Some statsEl"
    and "apiRequest G fetch ''/tasks'' no_options s = (Inr data, s1)"
    and "member data ''items'' = Some (JArr tasks)"
    and "\<forall>task \<in> set tasks. is_task task"
  shows "(tasks = [] \<longrightarrow>
            loadTasks G fetch s =
              (Inr (), s1\<lparr>task_list := Some [Html ''<p>No tasks yet. Create your first one above.</p>''],
                          task_stats := Some []\<rparr>))
       \<and> (tasks \<noteq> [] \<longrightarrow>
            (\<exists>rows. loadTasks G fetch s =
                      (Inr (), s1\<lparr>task_list := Some rows, task_stats := Some (spec_summary G tasks)\<rparr>)
                    \<and> rows = map (spec_row G (replace CHR ''_'' CHR '' '')) tasks
                    \<and> length rows = length tasks))"
proof (cases "tasks = []")
  case True
  with loadTasks_listed [OF assms] show ?thesis
    by (simp add: placeholder_def)
next
  case False
  with loadTasks_listed [OF assms] have
    "loadTasks G fetch s =
       (Inr (), s1\<lparr>task_list := Some (map (spec_row G (replace CHR ''_'' CHR '' '')) tasks),
                   task_stats := Some (spec_summary G tasks)\<rparr>)
     \<and> map (spec_row G (replace CHR ''_'' CHR '' '')) tasks =
         map (spec_row G (replace CHR ''_'' CHR '' '')) tasks
     \<and> length (map (spec_row G (replace CHR ''_'' CHR '' '')) tasks) = length tasks"
    by simp
  then have "\<exists>rows. loadTasks G fetch s =
                      (Inr (), s1\<lparr>task_list := Some rows, task_stats := Some (spec_summary G tasks)\<rparr>)
                    \<and> rows = map (spec_row G (replace CHR ''_'' CHR '' '')) tasks
                    \<and> length rows = length tasks"
    by (rule exI)
  with False show ?thesis by simp
qed

lemma hours_A_B: "spec_hours [task_A, task_B] = Fin (13 / 4)"
  by code_simp

lemma done_A_B: "spec_done [task_A, task_B] = 1"
  by (simp add: spec_done_def status_of_def task_A_def task_B_def)

lemma summary_A_B:
  "spec_summary example_engine [task_A, task_B] =
     ''2 tasks '' @ bullet @ '' 1 completed '' @ bullet @ '' 3.3h logged''"
  unfolding spec_summary_def hours_A_B done_A_B
  by (simp add: toFixed1_def show_nat.simps digit_def)

theorem loadTasks_renders_witness:
  "task_stats (snd (loadTasks example_engine (listing [task_A, task_B]) (example_state None))) =
     Some (''2 tasks '' @ bullet @ '' 1 completed '' @ bullet @ '' 3.3h logged'')
   \<and> task_list (snd (loadTasks example_engine (listing [task_A, task_B]) (example_state None))) =
       Some [spec_row example_engine (replace CHR ''_'' CHR '' '') task_A,
             spec_row example_engine (replace CHR ''_'' CHR '' '') task_B]
   \<and> task_stats (snd (loadTasks example_engine (listing []) (example_state None))) = Some []
   \<and> task_list (snd (loadTasks example_engine (listing []) (example_state None))) =
       Some [Html ''<p>No tasks yet. Create your first one above.</p>'']"
proof -
  let ?s = "example_state None"
  let ?two = "apiRequest example_engine (listing [task_A, task_B]) ''/tasks'' no_options ?s"
  let ?none = "apiRequest example_engine (listing []) ''/tasks'' no_options ?s"
  have page: "task_list ?s = Some []" "task_stats ?s = Some []"
    by (simp_all add: example_state_def)
  have two: "?two = (Inr (JObj [(''items'', JArr [task_A, task_B])]), snd ?two)"
    by (simp add: apiRequest_def Let_def listing_def routes_def answer_def ok_def)
  have none: "?none = (Inr (JObj [(''items'', JArr [])]), snd ?none)"
    by (simp add: apiRequest_def Let_def listing_def routes_def answer_def ok_def)
  have tasks: "\<forall>task \<in> set [task_A, task_B]. is_task task"
    by (simp add: task_A_def task_B_def is_task_def)
  have "task_stats (snd (loadTasks example_engine (listing [task_A, task_B]) ?s)) =
          Some (spec_summary example_engine [task_A, task_B])
        \<and> task_list (snd (loadTasks example_engine (listing [task_A, task_B]) ?s)) =
          Some (map (spec_row example_engine (replace CHR ''_'' CHR '' '')) [task_A, task_B])"
    using loadTasks_renders [OF page two _ tasks] by auto
  moreover have "loadTasks example_engine (listing []) ?s =
      (Inr (), (snd ?none)\<lparr>task_list := Some [Html ''<p>No tasks yet. Create your first one above.</p>''],
                            task_stats := Some []\<rparr>)"
    using loadTasks_renders [OF page none, of "[]"] by simp
  ultimately show ?thesis
    by (simp add: summary_A_B)
qed

lemma half_hour: "toFixed1 example_engine (Fin (1 / 2)) = ''0.5''"
  by code_simp

lemma replace_absent: "a \<notin> set cs \<Longrightarrow> map (\<lambda>c. if c = a then b else c) cs = cs"
  by (induction cs) auto

lemma replace_once:
  "count_list cs a \<le> 1 \<Longrightarrow> replace a b cs = map (\<lambda>c. if c = a then b else c) cs"
proof (induction cs)
  case Nil
  then show ?case by simp
next
  case (Cons c cs)
  show ?case
  proof (cases "c = a")
    case True
    with Cons.prems have "count_list cs a = 0" by simp
    then have "a \<notin> set cs" by (simp add: count_list_0_iff)
    with True show ?thesis by (simp add: replace_absent)
  next
    case False
    with Cons show ?thesis by simp
  qed
qed

text \<open>
  On the statuses of the design, \<open>todo\<close>, \<open>in_progress\<close> and \<open>done\<close>, which have at
  most one underscore, the label of the pill is the status with underscores replaced by
  spaces.
\<close>

lemma loadTasks_row_design:
  assumes "task_list s = Some listEl" and "task_stats s = Some statsEl"
    and "apiRequest G fetch ''/tasks'' no_options s = (Inr data, s1)"
    and "member data ''items'' = Some (JArr tasks)"
    and "\<forall>task \<in> set tasks. is_task task"
    and "i < length tasks"
    and "status_of (tasks ! i) \<in> {''todo'', ''in_progress'', ''done''}"
  shows "\<exists>rows. task_list (snd (loadTasks G fetch s)) = Some rows
           \<and> length rows = length tasks
           \<and> rows ! i = spec_row G spec_label (tasks ! i)"
proof -
  from assms(6) have "tasks \<noteq> []" by auto
  with loadTasks_listed [OF assms(1-5)] have
    listed: "task_list (snd (loadTasks G fetch s)) =
               Some (map (spec_row G (replace CHR ''_'' CHR '' '')) tasks)"
    by simp
  from assms(7) have "count_list (status_of (tasks ! i)) CHR ''_'' \<le> 1"
    by auto
  from replace_once [OF this] have
    "spec_row G (replace CHR ''_'' CHR '' '') (tasks ! i) = spec_row G spec_label (tasks ! i)"
    by (simp add: spec_row_def spec_label_def)
  with listed assms(6) show ?thesis
    by simp
qed

text \<open>
  C7: the label of the pill is meant to be the status with underscores replaced by spaces,
  and \<open>replace("_", " ")\<close> replaces one underscore only: for a task whose status is
  \<open>a_b_c\<close> the row shows the title, the hours to one decimal place and the delete
  button, and a pill labelled \<open>a b_c\<close>, where the status with underscores replaced by
  spaces is \<open>a b c\<close>.
\<close>

theorem loadTasks_second_underscore:
  "is_task task_C
   \<and> task_list (snd (loadTasks example_engine (listing [task_C]) (example_state None))) =
       Some [Element ''div'' ''task-item''
               [Element ''div'' ''task-item-title'' [Text ''C''] None,
                Element ''div'' []
                  [Element ''span'' ''task-status-pill task-status-a_b_c'' [Text ''a b_c''] None] None,
                Element ''div'' ''task-item-meta'' [Text ''0.5h logged''] None,
                Element ''div'' ''task-actions''
                  [Element ''button'' ''btn btn-ghost'' [Text ''Delete''] (Some (DeleteTask task_C))] None]
               None]
   \<and> spec_label ''a_b_c'' = ''a b c''"
  by (simp add: loadTasks_def render_list_def apiRequest_def Let_def listing_def routes_def answer_def
      ok_def bind_def render_task_def js_plus_def task_item_def text_of_def html_of_def set_stats_def
      example_state_def task_C_def is_task_def spec_label_def half_hour)

lemma to_string_Inl: "to_string G v = Inl e \<Longrightarrow> \<exists>f. e = TypeError f"
  and join_Inl: "join G vs = Inl e \<Longrightarrow> \<exists>f. e = TypeError f"
  by (induction G v and G vs arbitrary: e and e rule: to_string_join.induct)
     (auto simp: bind_def split: sum.splits if_splits)

lemma to_str_Inl: "to_str G v = Inl e \<Longrightarrow> \<exists>f. e = TypeError f"
  by (cases v) (auto dest: to_string_Inl join_Inl)

lemma dom_string_Inl: "dom_string G v = Inl e \<Longrightarrow> \<exists>f. e = TypeError f"
  by (cases "(G, v)" rule: dom_string.cases) (auto dest: to_string_Inl join_Inl split: if_splits)

lemma to_primitive_Inl: "to_primitive G v = Inl e \<Longrightarrow> \<exists>f. e = TypeError f"
  by (cases "(G, v)" rule: to_primitive.cases)
     (auto simp: bind_def split: sum.splits if_splits dest: to_string_Inl join_Inl)

lemma js_plus_Inl: "js_plus G a b = Inl e \<Longrightarrow> \<exists>f. e = TypeError f"
  by (auto simp: js_plus_def bind_def split: sum.splits if_splits
      dest: to_string_Inl join_Inl to_primitive_Inl)

lemma call_replace_Inl: "call_replace v = Inl e \<Longrightarrow> \<exists>f. e = TypeError f"
  by (cases v rule: call_replace.cases) auto

lemma call_toFixed_Inl: "call_toFixed G v = Inl e \<Longrightarrow> \<exists>f. e = TypeError f"
  by (cases "(G, v)" rule: call_toFixed.cases) auto

lemma get_Inl: "get v k = Inl e \<Longrightarrow> \<exists>f. e = TypeError f"
  by (cases "(v, k)" rule: get.cases) auto

lemma render_task_Inl: "render_task G task acc = Inl e \<Longrightarrow> \<exists>f. e = TypeError f"
  by (auto simp: render_task_def bind_def Let_def split: sum.splits prod.splits
      dest: get_Inl js_plus_Inl dom_string_Inl to_str_Inl call_replace_Inl call_toFixed_Inl)

lemma render_task_no_hours:
  assumes "member task ''time_logged'' = None \<or> member task ''time_logged'' = Some JNull"
  shows "\<exists>e. render_task G task acc = Inl e"
  using assms
  by (auto simp: render_task_def bind_def Let_def get_Some split: sum.splits prod.splits)

lemma forEach_task_no_hours:
  assumes "task \<in> set tasks"
    and "member task ''time_logged'' = None \<or> member task ''time_logged'' = Some JNull"
  shows "\<exists>f rows. forEach_task G tasks acc = Inl (TypeError f, rows)"
  using assms(1)
proof (induction tasks arbitrary: acc)
  case Nil
  then show ?case by simp
next
  case (Cons t tasks)
  show ?case
  proof (cases "render_task G t acc")
    case (Inl e)
    with render_task_Inl [OF Inl] show ?thesis by auto
  next
    case (Inr acc')
    with render_task_no_hours [OF assms(2), of G acc] have "t \<noteq> task" by auto
    with Cons.prems have "task \<in> set tasks" by simp
    from Cons.IH [OF this, of acc'] Inr show ?thesis by simp
  qed
qed

text \<open>A task that lacks nothing but its hours is stopped at \<open>toFixed\<close>.\<close>

lemma render_task_unguarded:
  assumes "is_text (member task ''title'')" and "is_text (member task ''status'')"
    and "member task ''time_logged'' = None \<or> member task ''time_logged'' = Some JNull"
  shows "render_task G task (JNum n, d, rows) =
           Inl (TypeError (ReadOf (member task ''time_logged'') ''toFixed''))"
proof -
  from assms(1) have "task \<noteq> JNull" by (auto simp: is_text_iff)
  with assms show ?thesis
    by (auto simp: render_task_def bind_def get_Some js_plus_def Let_def is_text_iff)
qed

lemma forEach_task_unguarded:
  assumes "\<forall>t \<in> set tasks. is_text (member t ''title'') \<and> is_text (member t ''status'')
             \<and> (is_hours (member t ''time_logged'') \<or> member t ''time_logged'' = None
                 \<or> member t ''time_logged'' = Some JNull)"
    and "\<exists>t \<in> set tasks. member t ''time_logged'' = None \<or> member t ''time_logged'' = Some JNull"
  shows "\<exists>v rows'. (v = None \<or> v = Some JNull)
           \<and> forEach_task G tasks (JNum n, d, rows) = Inl (TypeError (ReadOf v ''toFixed''), rows')"
  using assms
proof (induction tasks arbitrary: n d rows)
  case Nil
  then show ?case by simp
next
  case (Cons t tasks)
  show ?case
  proof (cases "member t ''time_logged'' = None \<or> member t ''time_logged'' = Some JNull")
    case True
    with Cons.prems(1) render_task_unguarded [of t G n d rows] show ?thesis
      by auto
  next
    case False
    with Cons.prems(1) have "is_task t" by (simp add: is_task_def)
    moreover from False Cons.prems(2) have
      "\<exists>t \<in> set tasks. member t ''time_logged'' = None \<or> member t ''time_logged'' = Some JNull"
      by auto
    moreover from Cons.prems(1) have
      "\<forall>t \<in> set tasks. is_text (member t ''title'') \<and> is_text (member t ''status'')
             \<and> (is_hours (member t ''time_logged'') \<or> member t ''time_logged'' = None
                 \<or> member t ''time_logged'' = Some JNull)"
      by simp
    ultimately show ?thesis
      using Cons.IH by (simp add: render_task_ok)
  qed
qed

lemma show_error_list:
  "task_list (snd (show_error G err s)) = Some [Html (''<p>'' @ message G err @ ''</p>'')]"
  by (simp add: show_error_def set_stats_def html_of_def split: option.splits)

lemma show_error_stats:
  "task_stats s = Some statsEl \<Longrightarrow> show_error G err s =
     (Inr (), s\<lparr>task_list := Some [Html (''<p>'' @ message G err @ ''</p>'')], task_stats := Some []\<rparr>)"
  by (simp add: show_error_def set_stats_def html_of_def)

lemma loadTasks_thrown:
  assumes "task_list s = Some listEl"
    and "apiRequest G fetch ''/tasks'' no_options s = (Inr data, s1)"
    and "member data ''items'' = Some (JArr tasks)"
    and "forEach_task G tasks (JNum (Fin 0), 0, []) = Inl (err, rows)"
  shows "loadTasks G fetch s = show_error G err (s1\<lparr>task_list := Some rows\<rparr>)"
proof -
  from assms(3) have "data \<noteq> JNull" by auto
  from assms(4) have "tasks \<noteq> []" by auto
  with assms \<open>data \<noteq> JNull\<close> show ?thesis
    by (simp add: loadTasks_def render_list_def bind_def get_Some html_of_def)
qed

text \<open>
  C10: when a task of a fetched non-empty list has \<open>time_logged\<close> absent or \<open>null\<close>, the
  running total counts it as zero, and yet \<open>loadTasks\<close> ends in its \<open>catch\<close> branch: the
  list holds the message of a \<open>TypeError\<close> in place of rows, and the summary is blank.  When
  the tasks lack nothing else, that error is the read of \<open>toFixed\<close> on the absent hours.
\<close>

theorem loadTasks_missing_hours:
  assumes "task_list s = Some listEl"
    and "apiRequest G fetch ''/tasks'' no_options s = (Inr data, s1)"
    and "member data ''items'' = Some (JArr tasks)"
    and "task \<in> set tasks"
    and "member task ''time_logged'' = None \<or> member task ''time_logged'' = Some JNull"
  shows "or_else (member task ''time_logged'') (JNum (Fin 0)) = JNum (Fin 0)
    \<and> (\<exists>f. task_list (snd (loadTasks G fetch s)) =
               Some [Html (''<p>'' @ message G (TypeError f) @ ''</p>'')]
          \<and> (task_stats s \<noteq> None \<longrightarrow> task_stats (snd (loadTasks G fetch s)) = Some [])
          \<and> ((\<forall>t \<in> set tasks. is_text (member t ''title'') \<and> is_text (member t ''status'')
                  \<and> (is_hours (member t ''time_logged'') \<or> member t ''time_logged'' = None
                      \<or> member t ''time_logged'' = Some JNull))
               \<longrightarrow> (\<exists>v. (v = None \<or> v = Some JNull) \<and> f = ReadOf v ''toFixed'')))"
proof -
  have zero: "or_else (member task ''time_logged'') (JNum (Fin 0)) = JNum (Fin 0)"
    using assms(5) by auto
  from forEach_task_no_hours [OF assms(4,5)] obtain f rows where
    thrown: "forEach_task G tasks (JNum (Fin 0), 0, []) = Inl (TypeError f, rows)"
    by blast
  note run = loadTasks_thrown [OF assms(1-3) thrown]
  have stats: "task_stats s1 = task_stats s"
    using apiRequest_fields [OF assms(2)] by simp
  have list: "task_list (snd (loadTasks G fetch s)) =
                Some [Html (''<p>'' @ message G (TypeError f) @ ''</p>'')]"
    unfolding run by (rule show_error_list)
  have blank: "task_stats (snd (loadTasks G fetch s)) = Some []" if "task_stats s \<noteq> None"
    using that stats unfolding run by (auto simp: show_error_stats)
  have site: "\<exists>v. (v = None \<or> v = Some JNull) \<and> f = ReadOf v ''toFixed''"
    if "\<forall>t \<in> set tasks. is_text (member t ''title'') \<and> is_text (member t ''status'')
                  \<and> (is_hours (member t ''time_logged'') \<or> member t ''time_logged'' = None
                      \<or> member t ''time_logged'' = Some JNull)"
  proof -
    from assms(4,5) have
      "\<exists>t \<in> set tasks. member t ''time_logged'' = None \<or> member t ''time_logged'' = Some JNull"
      by blast
    from forEach_task_unguarded [OF that this, of G "Fin 0" 0 "[]"] thrown show ?thesis
      by auto
  qed
  from zero list blank site show ?thesis by blast
qed

theorem loadTasks_missing_hours_witness:
  "task_list (snd (loadTasks example_engine (listing [task_A, task_N]) (example_state None))) =
     Some [Html ''<p>TypeError</p>'']
   \<and> task_stats (snd (loadTasks example_engine (listing [task_A, task_N]) (example_state None))) = Some []"
proof -
  let ?s = "example_state None"
  let ?called = "apiRequest example_engine (listing [task_A, task_N]) ''/tasks'' no_options ?s"
  have page: "task_list ?s = Some []"
    by (simp add: example_state_def)
  have called: "?called = (Inr (JObj [(''items'', JArr [task_A, task_N])]), snd ?called)"
    by (simp add: apiRequest_def Let_def listing_def routes_def answer_def ok_def)
  have items: "member (JObj [(''items'', JArr [task_A, task_N])]) ''items'' = Some (JArr [task_A, task_N])"
    by simp
  have task: "task_N \<in> set [task_A, task_N]"
    by simp
  have absent: "member task_N ''time_logged'' = None \<or> member task_N ''time_logged'' = Some JNull"
    by (simp add: task_N_def)
  have stats: "task_stats ?s \<noteq> None"
    by (simp add: example_state_def)
  from loadTasks_missing_hours [OF page called items task absent, of] stats show ?thesis
    by (auto simp: example_engine_def)
qed

lemma set_stats_trace: "trace (snd (set_stats t s)) = trace s"
  by (simp add: set_stats_def split: option.splits)

lemma render_list_trace: "trace (snd (render_list G data s)) = trace s"
  by (auto simp: render_list_def Let_def set_stats_trace
      split: sum.splits prod.splits option.splits json.splits)

lemma show_error_trace: "trace (snd (show_error G err s)) = trace s"
  by (simp add: show_error_def set_stats_def split: option.splits)

lemma loadTasks_requests:
  assumes "task_list s = Some listEl"
  shows "requests (trace (snd (loadTasks G fetch s))) =
           requests (trace s) @ [fetch_args (storage s) ''/tasks'' no_options]"
proof -
  let ?called = "apiRequest G fetch ''/tasks'' no_options s"
  have "trace (snd (loadTasks G fetch s)) = trace (snd ?called)"
  proof (cases "fst ?called")
    case (Inl err)
    with assms show ?thesis
      by (simp add: loadTasks_def show_error_trace)
  next
    case (Inr data)
    with assms show ?thesis
      using render_list_trace [of G data "snd ?called"]
      by (cases "render_list G data (snd ?called)")
         (auto simp: loadTasks_def show_error_trace split: option.splits)
  qed
  then show ?thesis
    by (simp add: apiRequest_requests)
qed

text \<open>
  C6, amended: for every click on the delete button of a rendered row: if the confirmation
  is declined, nothing is sent; if it is affirmed, exactly one \<open>DELETE\<close> request for the
  id of that task is sent, and it is followed by exactly one reload (a request for the full
  list) when the delete call returns, and by no request when the delete call throws.
\<close>

theorem delBtn_click_requests:
  assumes "task_list s = Some listEl"
    and "bind (get (Some task) ''id'') (to_str G) = Inr ident"
  shows "delBtn_click G fetch False task s = (Inr (), s)
    \<and> (\<forall>e. fst (apiRequest G fetch (''/tasks/'' @ ident)
                 \<lparr>opt_method = Some ''DELETE'', opt_headers = None, opt_body = None\<rparr> s) = Inl e \<longrightarrow>
          (\<exists>del. requests (trace (snd (delBtn_click G fetch True task s))) = requests (trace s) @ [del]
                \<and> method del = Some ''DELETE'' \<and> path del = ''/tasks/'' @ ident))
    \<and> (\<forall>v. fst (apiRequest G fetch (''/tasks/'' @ ident)
                 \<lparr>opt_method = Some ''DELETE'', opt_headers = None, opt_body = None\<rparr> s) = Inr v \<longrightarrow>
          (\<exists>del reload.
                requests (trace (snd (delBtn_click G fetch True task s))) = requests (trace s) @ [del, reload]
                \<and> method del = Some ''DELETE'' \<and> path del = ''/tasks/'' @ ident
                \<and> method reload = None \<and> path reload = ''/tasks''))"
proof -
  let ?opts = "\<lparr>opt_method = Some ''DELETE'', opt_headers = None, opt_body = None\<rparr>"
  let ?called = "apiRequest G fetch (''/tasks/'' @ ident) ?opts s"
  let ?del = "fetch_args (storage s) (''/tasks/'' @ ident) ?opts"
  let ?reload = "fetch_args (storage s) ''/tasks'' no_options"
  have del: "method ?del = Some ''DELETE''" "path ?del = ''/tasks/'' @ ident"
    by (simp_all add: fetch_args_def API_BASE_def)
  have reload: "method ?reload = None" "path ?reload = ''/tasks''"
    by (simp_all add: fetch_args_def API_BASE_def no_options_def)
  have sent: "requests (trace (snd ?called)) = requests (trace s) @ [?del]"
    by (rule apiRequest_requests)
  have page: "task_list (snd ?called) = Some listEl" "storage (snd ?called) = storage s"
    using apiRequest_fields [of G fetch "''/tasks/'' @ ident" ?opts s "fst ?called" "snd ?called"] assms(1)
    by simp_all
  have declined: "delBtn_click G fetch False task s = (Inr (), s)"
    by (simp add: delBtn_click_def)
  have failed: "(\<exists>del. requests (trace (snd (delBtn_click G fetch True task s))) = requests (trace s) @ [del]
            \<and> method del = Some ''DELETE'' \<and> path del = ''/tasks/'' @ ident)"
    if "fst ?called = Inl e" for e
  proof -
    from that assms(2) have "delBtn_click G fetch True task s = (Inl e, snd ?called)"
      by (simp add: delBtn_click_def Let_def)
    with sent del show ?thesis by auto
  qed
  have deleted: "(\<exists>del reload.
            requests (trace (snd (delBtn_click G fetch True task s))) = requests (trace s) @ [del, reload]
            \<and> method del = Some ''DELETE'' \<and> path del = ''/tasks/'' @ ident
            \<and> method reload = None \<and> path reload = ''/tasks'')"
    if "fst ?called = Inr v" for v
  proof -
    from that assms(2) have
      run: "delBtn_click G fetch True task s = (Inr (), snd (loadTasks G fetch (snd ?called)))"
      by (simp add: delBtn_click_def Let_def)
    have "requests (trace (snd (loadTasks G fetch (snd ?called)))) = requests (trace s) @ [?del, ?reload]"
      using loadTasks_requests [OF page(1), of G fetch] sent page(2) by simp
    with run del reload show ?thesis by auto
  qed
  from declined failed deleted show ?thesis by blast
qed

theorem delBtn_click_requests_witness:
  "map path (requests (trace (snd (delBtn_click example_engine delete_done True task_7 (example_state None)))))
     = [''/tasks/7'', ''/tasks'']
   \<and> map method (requests (trace (snd (delBtn_click example_engine delete_done True task_7 (example_state None)))))
     = [Some ''DELETE'', None]
   \<and> delBtn_click example_engine delete_done False task_7 (example_state None) = (Inr (), example_state None)"
proof -
  let ?s = "example_state None"
  let ?opts = "\<lparr>opt_method = Some ''DELETE'', opt_headers = None, opt_body = None\<rparr>"
  have page: "task_list ?s = Some []"
    by (simp add: example_state_def)
  have ident: "bind (get (Some task_7) ''id'') (to_str example_engine) = Inr ''7''"
    by (simp add: task_7_def bind_def example_engine_def show_nat.simps digit_def)
  have called: "fst (apiRequest example_engine delete_done (''/tasks/'' @ ''7'') ?opts ?s) = Inr JNull"
    by (simp add: apiRequest_def Let_def getToken_def delete_done_def routes_def ok_def
        fetch_args_def API_BASE_def)
  from delBtn_click_requests [OF page ident, of delete_done] called
  obtain del reload where
    "requests (trace (snd (delBtn_click example_engine delete_done True task_7 ?s))) =
       requests (trace ?s) @ [del, reload]"
    "method del = Some ''DELETE''" "path del = ''/tasks/'' @ ''7''"
    "method reload = None" "path reload = ''/tasks''"
    by blast
  moreover from delBtn_click_requests [OF page ident, of delete_done] have
    "delBtn_click example_engine delete_done False task_7 ?s = (Inr (), ?s)"
    by blast
  moreover have "trace ?s = []" by (simp add: example_state_def)
  ultimately show ?thesis by simp
qed

text \<open>
  C6, as the claim states it, fails: when the confirmation is affirmed and the server
  answers the \<open>DELETE\<close> with status 500, the one request sent is the \<open>DELETE\<close>: no reload
  follows.
\<close>

theorem delBtn_click_delete_fails:
  "bind (get (Some task_7) ''id'') (to_str example_engine) = Inr ''7''
   \<and> fst (delBtn_click example_engine delete_refused True task_7 (example_state None)) = Inl (Error ''boom'')
   \<and> map path (requests (trace (snd (delBtn_click example_engine delete_refused True task_7
                                          (example_state None))))) = [''/tasks/7'']
   \<and> map method (requests (trace (snd (delBtn_click example_engine delete_refused True task_7
                                            (example_state None))))) = [Some ''DELETE'']"
  by (simp add: delBtn_click_def apiRequest_def Let_def getToken_def delete_refused_def routes_def
      answer_def ok_def bind_def example_state_def fetch_args_def API_BASE_def task_7_def
      example_engine_def show_nat.simps digit_def)

text \<open>
  C3: the claim is what the sibling handlers do, and \<open>handleNewTask\<close> does not: its
  request is outside any \<open>try\<close>.  When the server answers the creation with status 500 and
  \<open>{"detail": "boom"}\<close>, the promise of the handler is rejected with that error, the
  list and the summary are as before, the form is not reset, and no reload is sent.
\<close>

theorem handleNewTask_rejects:
  "fst (handleNewTask example_engine server_error (example_state (Some ''tok''))) = Inl (Error ''boom'')
   \<and> task_list (snd (handleNewTask example_engine server_error (example_state (Some ''tok'')))) = Some []
   \<and> task_stats (snd (handleNewTask example_engine server_error (example_state (Some ''tok'')))) = Some []
   \<and> new_task_form (snd (handleNewTask example_engine server_error (example_state (Some ''tok''))))
       = new_task_form (example_state (Some ''tok''))
   \<and> map path (requests (trace (snd (handleNewTask example_engine server_error (example_state (Some ''tok''))))))
       = [''/tasks'']"
  by (simp add: handleNewTask_def apiRequest_def Let_def getToken_def server_error_def routes_def
      answer_def ok_def bind_def example_state_def fetch_args_def API_BASE_def post_def)

end
